theory Spec2Isabelle
  imports Complex_Main "HOL-Library.Word" "HOL-Library.AList"
begin

section \<open>JavaScript values\<close>

text \<open>
  Values as they arrive in a parsed request body. Arrays and nested objects are never
  inspected by the code modelled here beyond their truthiness, so they are folded into
  \<open>JComposite\<close>. Numbers are exact rationals standing for the doubles of the runtime.
  An object is an association list with distinct keys, in insertion order.
\<close>

datatype json = JNull | JBool bool | JNum rat | JStr string | JComposite

type_synonym obj = "(string \<times> json) list"


text \<open>Truthiness of a value known to be a string or undefined.\<close>

fun truthy_str :: "string option \<Rightarrow> bool" where
  "truthy_str None = False"
| "truthy_str (Some s) = (s \<noteq> [])"

text \<open>\<^verbatim>\<open>s.split(c)\<close> for a one-character separator: never empty, \<^verbatim>\<open>''.split(c)\<close> is \<^verbatim>\<open>['']\<close>.\<close>

fun split_on :: "char \<Rightarrow> string \<Rightarrow> string list" where
  "split_on c [] = [[]]"
| "split_on c (x # xs) =
     (if x = c then [] # split_on c xs
      else case split_on c xs of
             [] \<Rightarrow> [[x]]
           | w # ws \<Rightarrow> (x # w) # ws)"

text \<open>\<^verbatim>\<open>xs[i]\<close>: \<^verbatim>\<open>undefined\<close> out of range.\<close>

definition nth_opt :: "'a list \<Rightarrow> nat \<Rightarrow> 'a option" where
  "nth_opt xs i = (if i < length xs then Some (xs ! i) else None)"

definition startsWith :: "string \<Rightarrow> string \<Rightarrow> bool" where
  "startsWith s p = (take (length p) s = p)"

text \<open>\<^verbatim>\<open>buf.toString('hex')\<close>: two lower-case hexadecimal digits per byte.\<close>

definition hex_digit :: "nat \<Rightarrow> char" where
  "hex_digit n = ''0123456789abcdef'' ! (n mod 16)"

definition toString_hex :: "8 word list \<Rightarrow> string" where
  "toString_hex bs = concat (map (\<lambda>b. [hex_digit (unat b div 16), hex_digit (unat b mod 16)]) bs)"

section \<open>Errors and third-party primitives\<close>

text \<open>
  Errors handed to \<^verbatim>\<open>next\<close>. \<open>AppError msg code\<close> is \<^verbatim>\<open>new AppError(msg, code)\<close>; the other
  constructors are the errors thrown by the libraries, named as the error controller
  tests them (\<^verbatim>\<open>error.name\<close>, \<^verbatim>\<open>error.code === 11000\<close>). A \<open>ValidationError\<close> lists the
  paths whose validators failed.
\<close>

datatype error =
    AppError string nat
  | CastError
  | DuplicateKeyError
  | ValidationError "string list"
  | JsonWebTokenError
  | TokenExpiredError
  | NotBeforeError
  | TypeError
  | IllegalArguments
  | DriverError

text \<open>The decoded payload of a token: \<^verbatim>\<open>decoded.id\<close> and \<^verbatim>\<open>decoded.iat\<close> (seconds).\<close>

record payload =
  payload_id :: nat
  iat :: int

text \<open>
  The third-party primitives the code calls (bcryptjs, crypto, jsonwebtoken, validator,
  slugify, the unary plus of the runtime, and the conversions of the ODM between JSON
  types). Their code is not part of the repository, so every function of the model that
  reaches one takes them as the parameter \<open>L\<close>.
\<close>

record lib =
  bcrypt_hash :: "string \<Rightarrow> nat \<Rightarrow> string"
  sha256_hex :: "string \<Rightarrow> string"
  jwt_sign :: "nat \<Rightarrow> string \<Rightarrow> string"
  jwt_verify :: "string \<Rightarrow> string \<Rightarrow> error + payload"
  isEmail :: "string \<Rightarrow> bool"
  toLowerCase :: "string \<Rightarrow> string"
  slugify :: "string \<Rightarrow> string"
  convString :: "json \<Rightarrow> string option"
  convNumber :: "json \<Rightarrow> rat option"
  convBoolean :: "json \<Rightarrow> bool option"
  convDate :: "json \<Rightarrow> int option"
  convObjectId :: "json \<Rightarrow> nat option"
  toNumber :: "string \<Rightarrow> rat option"

text \<open>
  Casting a value to the type of a schema path. A value that already has the type is
  taken as it is; every other conversion is the ODM's. \<open>None\<close> is a failed cast.
\<close>

definition cast_string :: "lib \<Rightarrow> json \<Rightarrow> string option" where
  "cast_string L v = (case v of JStr s \<Rightarrow> Some s | _ \<Rightarrow> convString L v)"


definition cast_boolean :: "lib \<Rightarrow> json \<Rightarrow> bool option" where
  "cast_boolean L v = (case v of JBool b \<Rightarrow> Some b | _ \<Rightarrow> convBoolean L v)"

definition cast_date :: "lib \<Rightarrow> json \<Rightarrow> int option" where
  "cast_date L v = convDate L v"

definition cast_objectId :: "lib \<Rightarrow> json \<Rightarrow> nat option" where
  "cast_objectId L v = convObjectId L v"

text \<open>
  \<open>update_first P F xs\<close> rewrites the first element satisfying \<open>P\<close>, the document a
  \<^verbatim>\<open>findOneAndUpdate\<close> touches; \<open>remove_first\<close> is its \<^verbatim>\<open>findOneAndDelete\<close> counterpart.
\<close>

fun update_first :: "('a \<Rightarrow> bool) \<Rightarrow> ('a \<Rightarrow> 'a) \<Rightarrow> 'a list \<Rightarrow> 'a list" where
  "update_first P F [] = []"
| "update_first P F (x # xs) = (if P x then F x # xs else x # update_first P F xs)"


section \<open>userModel.ts\<close>

text \<open>
  A user document. Dates are milliseconds since the epoch; an optional path that is
  \<^verbatim>\<open>undefined\<close> is \<open>None\<close>. \<open>active\<close> is optional because the find hook tests
  \<^verbatim>\<open>{ active: { $ne: false } }\<close>, which a document without the path passes too.
\<close>

record user =
  user_id :: nat
  name :: string
  email :: string
  photo :: string
  role :: string
  password :: "string option"
  passwordConfirm :: "string option"
  passwordChangedAt :: "int option"
  passwordResetToken :: "string option"
  passwordResetExpires :: "int option"
  active :: "bool option"

text \<open>
  The first \<^verbatim>\<open>pre('save')\<close> hook. \<open>modified\<close> is \<^verbatim>\<open>this.isModified('password')\<close>.
  bcryptjs rejects a password that is not a string (\<open>IllegalArguments\<close>).
\<close>

definition pre_save_hash :: "lib \<Rightarrow> bool \<Rightarrow> user \<Rightarrow> error + user" where
  "pre_save_hash L modified u =
     (if \<not> modified then Inr u
      else case password u of
             None \<Rightarrow> Inl IllegalArguments
           | Some pw \<Rightarrow> Inr (u\<lparr>password := Some (bcrypt_hash L pw 12), passwordConfirm := None\<rparr>))"

text \<open>The second \<^verbatim>\<open>pre('save')\<close> hook; \<open>now\<close> is \<^verbatim>\<open>new Date().getTime()\<close>.\<close>

definition pre_save_changedAt :: "bool \<Rightarrow> bool \<Rightarrow> int \<Rightarrow> user \<Rightarrow> user" where
  "pre_save_changedAt modified isNew now u =
     (if \<not> modified \<or> isNew then u else u\<lparr>passwordChangedAt := Some (now - 1000)\<rparr>)"

text \<open>Both hooks in the order they are registered, as a save runs them.\<close>

definition pre_save :: "lib \<Rightarrow> bool \<Rightarrow> bool \<Rightarrow> int \<Rightarrow> user \<Rightarrow> error + user" where
  "pre_save L modified isNew now u =
     (case pre_save_hash L modified u of
        Inl e \<Rightarrow> Inl e
      | Inr u' \<Rightarrow> Inr (pre_save_changedAt modified isNew now u'))"

text \<open>
  The \<^verbatim>\<open>pre(/^find/)\<close> hook adds \<^verbatim>\<open>{ active: { $ne: false } }\<close> to the filter of every query
  whose name starts with find: \<^verbatim>\<open>find\<close>, \<^verbatim>\<open>findOne\<close> (and so \<^verbatim>\<open>findById\<close>),
  \<^verbatim>\<open>findOneAndUpdate\<close> (\<^verbatim>\<open>findByIdAndUpdate\<close>) and \<^verbatim>\<open>findOneAndDelete\<close>.
\<close>

definition User_find_hook :: "user \<Rightarrow> bool" where
  "User_find_hook u = (active u \<noteq> Some False)"

text \<open>The paths declared \<^verbatim>\<open>select: false\<close> are left out of a query's result.\<close>

definition deselect :: "user \<Rightarrow> user" where
  "deselect u = u\<lparr>password := None, active := None\<rparr>"

definition User_find :: "(user \<Rightarrow> bool) \<Rightarrow> user list \<Rightarrow> user list" where
  "User_find cond users = map deselect (filter (\<lambda>u. cond u \<and> User_find_hook u) users)"

definition User_findOne :: "(user \<Rightarrow> bool) \<Rightarrow> user list \<Rightarrow> user option" where
  "User_findOne cond users = map_option deselect (List.find (\<lambda>u. cond u \<and> User_find_hook u) users)"

definition User_findById :: "nat \<Rightarrow> user list \<Rightarrow> user option" where
  "User_findById i users = User_findOne (\<lambda>u. user_id u = i) users"

definition changedPasswordAfter :: "user \<Rightarrow> int \<Rightarrow> bool" where
  "changedPasswordAfter u JWTTimestamp =
     (case passwordChangedAt u of
        Some t \<Rightarrow> (of_int JWTTimestamp :: rat) < of_int t / 1000
      | None \<Rightarrow> False)"

text \<open>
  \<open>rnd\<close> is the result of \<^verbatim>\<open>crypto.randomBytes(32)\<close>, \<open>now\<close> the clock. The result is the
  returned token and the document as the method leaves it.
\<close>

definition createPasswordResetToken :: "lib \<Rightarrow> 8 word list \<Rightarrow> int \<Rightarrow> user \<Rightarrow> string \<times> user" where
  "createPasswordResetToken L rnd now u =
     (let resetToken = toString_hex rnd
      in (resetToken,
          u\<lparr>passwordResetToken := Some (sha256_hex L resetToken),
            passwordResetExpires := Some (now + 10 * 60 * 1000)\<rparr>))"

text \<open>
  Validation of the two password paths when a loaded document is saved after both were
  assigned: \<^verbatim>\<open>required\<close> (an empty string counts as missing), \<^verbatim>\<open>minlength: 8\<close>, and the
  validator \<^verbatim>\<open>el === this.password\<close> of passwordConfirm. The result lists the failing paths.
\<close>

definition validate_passwords :: "user \<Rightarrow> string list" where
  "validate_passwords u =
     (case password u of
        None \<Rightarrow> [''password'']
      | Some pw \<Rightarrow> if pw = [] \<or> length pw < 8 then [''password''] else [])
     @ (case passwordConfirm u of
          None \<Rightarrow> [''passwordConfirm'']
        | Some pc \<Rightarrow> if pc = [] \<or> Some pc \<noteq> password u then [''passwordConfirm''] else [])"

text \<open>
  \<^verbatim>\<open>user.save()\<close> on a loaded document whose password paths and reset paths were assigned:
  validation, the pre-save hooks, then the write of the modified paths to the stored
  document with the same id (the paths that were not loaded or not modified stay).
\<close>

definition User_save :: "lib \<Rightarrow> int \<Rightarrow> user \<Rightarrow> user list \<Rightarrow> error + (user list \<times> user)" where
  "User_save L now u users =
     (if validate_passwords u \<noteq> [] then Inl (ValidationError (validate_passwords u))
      else case pre_save L True False now u of
             Inl e \<Rightarrow> Inl e
           | Inr u' \<Rightarrow>
               Inr (update_first (\<lambda>d. user_id d = user_id u)
                      (\<lambda>d. d\<lparr>password := password u', passwordConfirm := passwordConfirm u',
                             passwordChangedAt := passwordChangedAt u',
                             passwordResetToken := passwordResetToken u',
                             passwordResetExpires := passwordResetExpires u'\<rparr>) users,
                    u'))"

text \<open>
  Casting one entry of an update document against the user schema: the result is the
  assignment it makes and the paths whose update validators fail. The \<^verbatim>\<open>lowercase\<close>
  option of email is a setter and runs here. A key that is not a schema path is dropped
  (strict mode). The validator of passwordConfirm compares with \<^verbatim>\<open>this.password\<close>, and in an
  update \<^verbatim>\<open>this\<close> is not the document, so it fails (the schema's comment: it only works on
  create and save).
\<close>

definition cast_user_path :: "lib \<Rightarrow> string \<Rightarrow> json \<Rightarrow> error + ((user \<Rightarrow> user) \<times> string list)" where
  "cast_user_path L k v =
     (if k = ''name'' then
        (case cast_string L v of None \<Rightarrow> Inl CastError
         | Some s \<Rightarrow> Inr (\<lambda>u. u\<lparr>name := s\<rparr>, if s = [] then [k] else []))
      else if k = ''email'' then
        (case cast_string L v of None \<Rightarrow> Inl CastError
         | Some s \<Rightarrow> Inr (\<lambda>u. u\<lparr>email := toLowerCase L s\<rparr>,
                         if s = [] \<or> \<not> isEmail L (toLowerCase L s) then [k] else []))
      else if k = ''photo'' then
        (case cast_string L v of None \<Rightarrow> Inl CastError
         | Some s \<Rightarrow> Inr (\<lambda>u. u\<lparr>photo := s\<rparr>, []))
      else if k = ''role'' then
        (case cast_string L v of None \<Rightarrow> Inl CastError
         | Some s \<Rightarrow> Inr (\<lambda>u. u\<lparr>role := s\<rparr>,
                         if s \<in> set [''user'', ''guide'', ''lead-guide'', ''admin''] then [] else [k]))
      else if k = ''password'' then
        (case cast_string L v of None \<Rightarrow> Inl CastError
         | Some s \<Rightarrow> Inr (\<lambda>u. u\<lparr>password := Some s\<rparr>, if length s < 8 then [k] else []))
      else if k = ''passwordConfirm'' then
        (case cast_string L v of None \<Rightarrow> Inl CastError
         | Some s \<Rightarrow> Inr (\<lambda>u. u\<lparr>passwordConfirm := Some s\<rparr>, [k]))
      else if k = ''passwordChangedAt'' then
        (case cast_date L v of None \<Rightarrow> Inl CastError
         | Some t \<Rightarrow> Inr (\<lambda>u. u\<lparr>passwordChangedAt := Some t\<rparr>, []))
      else if k = ''passwordResetToken'' then
        (case cast_string L v of None \<Rightarrow> Inl CastError
         | Some s \<Rightarrow> Inr (\<lambda>u. u\<lparr>passwordResetToken := Some s\<rparr>, []))
      else if k = ''passwordResetExpires'' then
        (case cast_date L v of None \<Rightarrow> Inl CastError
         | Some t \<Rightarrow> Inr (\<lambda>u. u\<lparr>passwordResetExpires := Some t\<rparr>, []))
      else if k = ''active'' then
        (case cast_boolean L v of None \<Rightarrow> Inl CastError
         | Some b \<Rightarrow> Inr (\<lambda>u. u\<lparr>active := Some b\<rparr>, []))
      else Inr (\<lambda>u. u, []))"

fun cast_user_update :: "lib \<Rightarrow> obj \<Rightarrow> error + ((user \<Rightarrow> user) \<times> string list)" where
  "cast_user_update L [] = Inr (\<lambda>u. u, [])"
| "cast_user_update L ((k, v) # kvs) =
     (case cast_user_path L k v of
        Inl e \<Rightarrow> Inl e
      | Inr (f, bad) \<Rightarrow>
          (case cast_user_update L kvs of
             Inl e \<Rightarrow> Inl e
           | Inr (g, bad') \<Rightarrow> Inr (\<lambda>u. g (f u), bad @ bad')))"

text \<open>
  \<^verbatim>\<open>User.findByIdAndUpdate(id, upd, opts)\<close>: the update is cast (and validated when
  \<^verbatim>\<open>runValidators\<close> is set) before the database is asked; the find hook narrows the filter;
  the unique index on email rejects an address another document holds. The result is the
  collection and the document found, after the update (\<^verbatim>\<open>new: true\<close> as the callers that
  read it pass), without the deselected paths.
\<close>

definition User_findByIdAndUpdate ::
  "lib \<Rightarrow> bool \<Rightarrow> nat \<Rightarrow> obj \<Rightarrow> user list \<Rightarrow> error + (user list \<times> user option)" where
  "User_findByIdAndUpdate L runValidators i upd users =
     (case cast_user_update L upd of
        Inl e \<Rightarrow> Inl e
      | Inr (F, bad) \<Rightarrow>
          if runValidators \<and> bad \<noteq> [] then Inl (ValidationError bad)
          else case List.find (\<lambda>u. user_id u = i \<and> User_find_hook u) users of
                 None \<Rightarrow> Inr (users, None)
               | Some u \<Rightarrow>
                   if ''email'' \<in> fst ` set upd
                      \<and> (\<exists>d \<in> set users. user_id d \<noteq> i \<and> email d = email (F u))
                   then Inl DuplicateKeyError
                   else Inr (update_first (\<lambda>u. user_id u = i \<and> User_find_hook u) F users,
                             Some (deselect (F u))))"

section \<open>tourModel.ts\<close>

text \<open>
  A tour document, with the paths that carry a validator, a setter, a default or an
  index and the paths the controllers read. The remaining paths of the schema
  (description, images, createdAt, startDates, startLocation, locations, guides) are
  stored as given and take no part in what follows.
\<close>

record tour =
  tour_id :: nat
  tour_name :: string
  slug :: string
  duration :: rat
  maxGroupSize :: rat
  difficulty :: string
  ratingsAverage :: rat
  ratingsQuantity :: rat
  price :: rat
  priceDiscount :: "rat option"
  summary :: string
  imageCover :: string
  secretTour :: "bool option"





text \<open>The first \<^verbatim>\<open>pre(/^find/)\<close> hook adds \<^verbatim>\<open>{ secretTour: { $ne: true } }\<close> to every find query.\<close>

definition Tour_find_hook :: "tour \<Rightarrow> bool" where
  "Tour_find_hook t = (secretTour t \<noteq> Some True)"












section \<open>reviewModel.ts\<close>

record review =
  review_id :: nat
  review_text :: string
  rating :: rat
  review_user :: nat
  review_tour :: nat








section \<open>authController.ts\<close>

text \<open>
  The parts of the request and of \<^verbatim>\<open>res.locals\<close> that the handlers read and write.
  \<open>req_file\<close> is \<^verbatim>\<open>req.file.filename\<close> when a file was uploaded.
\<close>

record request =
  authorization :: "string option"
  cookie_jwt :: "string option"
  req_user :: "user option"
  params :: "(string \<times> string) list"
  body :: obj
  req_file :: "string option"
  res_locals_user :: "user option"

text \<open>What a handler sends: the status, the token (also set as the jwt cookie) and the data.\<close>

datatype data =
    NoData
  | UserData user
  | TourDoc tour
  | TourWithReviews tour "review list"
  | Tours nat "tour list"

record response =
  res_status :: nat
  res_token :: "string option"
  res_data :: data

definition signToken :: "lib \<Rightarrow> string \<Rightarrow> nat \<Rightarrow> string" where
  "signToken L secret i = jwt_sign L i secret"

definition createSendToken :: "lib \<Rightarrow> string \<Rightarrow> user \<Rightarrow> nat \<Rightarrow> response" where
  "createSendToken L secret u statusCode =
     (let token = signToken L secret (user_id u)
      in \<lparr> res_status = statusCode, res_token = Some token,
           res_data = UserData (u\<lparr>password := None\<rparr>) \<rparr>)"

text \<open>
  A middleware ends by calling \<^verbatim>\<open>next(err)\<close> (\<open>Inl err\<close>; a rejection is forwarded by
  \<^verbatim>\<open>catchAsync\<close>) or \<^verbatim>\<open>next()\<close> (\<open>Inr req\<close>, with the request as the middleware left it).
\<close>

definition get_token :: "request \<Rightarrow> string option" where
  "get_token req =
     (if truthy_str (authorization req) \<and> startsWith (the (authorization req)) ''Bearer''
      then nth_opt (split_on CHR '' '' (the (authorization req))) 1
      else if truthy_str (cookie_jwt req) then cookie_jwt req
      else None)"

definition protect :: "lib \<Rightarrow> string \<Rightarrow> user list \<Rightarrow> request \<Rightarrow> error + request" where
  "protect L secret users req =
     (let token = get_token req in
      if \<not> truthy_str token
      then Inl (AppError ''You are not logged in. Please log in to get access.'' 401)
      else case jwt_verify L (the token) secret of
             Inl e \<Rightarrow> Inl e
           | Inr decoded \<Rightarrow>
               (case User_findById (payload_id decoded) users of
                  None \<Rightarrow> Inl (AppError ''The user no longer exists.'' 401)
                | Some currentUser \<Rightarrow>
                    if changedPasswordAfter currentUser (iat decoded)
                    then Inl (AppError ''User recently changed password. Please log in again.'' 401)
                    else Inr (req\<lparr>req_user := Some currentUser,
                                  res_locals_user := Some currentUser\<rparr>)))"

text \<open>Reading \<^verbatim>\<open>req.user.role\<close> when \<^verbatim>\<open>req.user\<close> is undefined throws a TypeError.\<close>

definition restrictTo :: "string list \<Rightarrow> request \<Rightarrow> error + request" where
  "restrictTo roles req =
     (case req_user req of
        None \<Rightarrow> Inl TypeError
      | Some u \<Rightarrow>
          if role u \<notin> set roles
          then Inl (AppError ''You do not have permission to perform this action'' 403)
          else Inr req)"

text \<open>
  \<open>tok\<close> is \<^verbatim>\<open>req.params.token\<close>, \<open>now\<close> the clock; the new password and its confirmation are
  read from the body (a value the schema cannot cast to a string fails validation like a
  missing one). The result is the collection after the save and the response.
\<close>

definition body_string :: "lib \<Rightarrow> obj \<Rightarrow> string \<Rightarrow> string option" where
  "body_string L b k = (case map_of b k of None \<Rightarrow> None | Some v \<Rightarrow> cast_string L v)"

definition resetPassword ::
  "lib \<Rightarrow> string \<Rightarrow> int \<Rightarrow> string \<Rightarrow> obj \<Rightarrow> user list \<Rightarrow> error + (user list \<times> response)" where
  "resetPassword L secret now tok b users =
     (let hashedToken = sha256_hex L tok in
      case User_findOne (\<lambda>u. passwordResetToken u = Some hashedToken
                              \<and> (case passwordResetExpires u of None \<Rightarrow> False | Some t \<Rightarrow> t > now))
             users of
        None \<Rightarrow> Inl (AppError ''Token is invalid or has expired'' 400)
      | Some u \<Rightarrow>
          (case User_save L now
                  (u\<lparr>password := body_string L b ''password'',
                     passwordConfirm := body_string L b ''passwordConfirm'',
                     passwordResetToken := None, passwordResetExpires := None\<rparr>) users of
             Inl e \<Rightarrow> Inl e
           | Inr (users', saved) \<Rightarrow> Inr (users', createSendToken L secret saved 200)))"

section \<open>errorController.ts\<close>

datatype node_env = Development | Production | OtherEnv

text \<open>
  \<^verbatim>\<open>err.statusCode || 500\<close>: an \<open>AppError\<close> carries the code it was built with, an error
  thrown by a library has none.
\<close>

definition statusCode :: "error \<Rightarrow> nat" where
  "statusCode e = (case e of AppError m c \<Rightarrow> if c = 0 then 500 else c | _ \<Rightarrow> 500)"

text \<open>
  Modelled from the spec: the class AppError (utils/appError.ts) is not among the sources;
  an error built by it is taken to be operational and every other error not, which is
  what the comments of \<^verbatim>\<open>sendErrorProd\<close> say of the flag.
\<close>

definition isOperational :: "error \<Rightarrow> bool" where
  "isOperational e = (case e of AppError m c \<Rightarrow> True | _ \<Rightarrow> False)"

text \<open>
  The chain of \<^verbatim>\<open>if\<close>s of the production branch replaces a database or token error by a
  new AppError (\<^verbatim>\<open>handleCastErrorDB\<close>, \<^verbatim>\<open>handleDuplicateFieldsDB\<close>,
  \<^verbatim>\<open>handleValidationErrorDB\<close>, \<^verbatim>\<open>handleJWTError\<close>, \<^verbatim>\<open>handleJWTExpiredError\<close>). The result
  is the status code the replacement is built with, \<open>None\<close> when no test of the chain
  matches and the error is passed on as it is.
\<close>

definition replaced_status :: "error \<Rightarrow> nat option" where
  "replaced_status e =
     (case e of
        CastError \<Rightarrow> Some 400
      | DuplicateKeyError \<Rightarrow> Some 400
      | ValidationError ps \<Rightarrow> Some 400
      | JsonWebTokenError \<Rightarrow> Some 401
      | TokenExpiredError \<Rightarrow> Some 401
      | _ \<Rightarrow> None)"

text \<open>
  The status of the response the global error handler sends for an error; \<open>api\<close> is
  \<^verbatim>\<open>req.originalUrl.startsWith('/api')\<close>. \<^verbatim>\<open>sendErrorProd\<close> answers an operational error with
  its own status code; any other error with 500 on an API route and with its status code
  on a rendered page. In an environment that is neither development nor production the
  handler sends nothing.
\<close>

definition globalErrorHandler :: "node_env \<Rightarrow> bool \<Rightarrow> error \<Rightarrow> nat option" where
  "globalErrorHandler env api e =
     (case env of
        Development \<Rightarrow> Some (statusCode e)
      | Production \<Rightarrow>
          (case replaced_status e of
             Some c \<Rightarrow> Some c
           | None \<Rightarrow>
               if api then (if isOperational e then Some (statusCode e) else Some 500)
               else Some (statusCode e))
      | OtherEnv \<Rightarrow> None)"

section \<open>userController.ts\<close>



definition deleteMe :: "lib \<Rightarrow> user list \<Rightarrow> request \<Rightarrow> error + (user list \<times> response)" where
  "deleteMe L users req =
     (case req_user req of
        None \<Rightarrow> Inl TypeError
      | Some me \<Rightarrow>
          (case User_findByIdAndUpdate L False (user_id me) [(''active'', JBool False)] users of
             Inl e \<Rightarrow> Inl e
           | Inr (users', found) \<Rightarrow>
               Inr (users', \<lparr> res_status = 204, res_token = None, res_data = NoData \<rparr>)))"

section \<open>tourController.ts\<close>




text \<open>
  What \<^verbatim>\<open>getToursWithin\<close> does to the outside, in order: a call of \<^verbatim>\<open>next\<close> with an error, or
  a response sent with \<^verbatim>\<open>res.status(..).json(..)\<close>.
\<close>

datatype event = Next error | Send response

text \<open>
  \<open>centerSphere\<close> is the database's evaluation of
  \<^verbatim>\<open>{ $geoWithin: { $centerSphere: [[lng, lat], radius] } }\<close>: it rejects the condition or yields
  the test a start location has to pass. A radius \<open>None\<close> is NaN. The three arguments after
  it are the route parameters. There is no \<^verbatim>\<open>return\<close> after the call of \<^verbatim>\<open>next\<close>; a rejection of
  the query is forwarded to \<^verbatim>\<open>next\<close> by \<^verbatim>\<open>catchAsync\<close>.
\<close>

definition search_radius :: "lib \<Rightarrow> string \<Rightarrow> string \<Rightarrow> rat option" where
  "search_radius L distance unit =
     (if unit = ''mi'' then map_option (\<lambda>d. d / (39632 / 10)) (toNumber L distance)
      else map_option (\<lambda>d. d / (63781 / 10)) (toNumber L distance))"

text \<open>The two names bound by \<^verbatim>\<open>const [lat, lng] = latlng.split(',')\<close>.\<close>

definition lat_of :: "string \<Rightarrow> string option" where
  "lat_of latlng = nth_opt (split_on CHR '','' latlng) 0"

definition lng_of :: "string \<Rightarrow> string option" where
  "lng_of latlng = nth_opt (split_on CHR '','' latlng) 1"

text \<open>\<^verbatim>\<open>Tour.find(cond)\<close>: the documents that pass the condition and the find hook.\<close>

definition Tour_find :: "(tour \<Rightarrow> bool) \<Rightarrow> tour list \<Rightarrow> tour list" where
  "Tour_find cond tours = filter (\<lambda>t. cond t \<and> Tour_find_hook t) tours"

definition getToursWithin ::
  "lib \<Rightarrow> (string option \<Rightarrow> string option \<Rightarrow> rat option \<Rightarrow> error + (tour \<Rightarrow> bool))
     \<Rightarrow> string \<Rightarrow> string \<Rightarrow> string \<Rightarrow> tour list \<Rightarrow> event list" where
  "getToursWithin L centerSphere distance latlng unit tours =
     (let lat = lat_of latlng;
          lng = lng_of latlng;
          radius = search_radius L distance unit
      in (if \<not> truthy_str lat \<or> \<not> truthy_str lng
          then [Next (AppError
                  ''Please provide latitude and longitude in the format lat, lng.'' 400)]
          else [])
         @ (case centerSphere lng lat radius of
              Inl e \<Rightarrow> [Next e]
            | Inr inside \<Rightarrow>
                (let found = Tour_find inside tours
                 in [Send \<lparr> res_status = 200, res_token = None,
                            res_data = Tours (length found) found \<rparr>])))"

section \<open>Notions used in the statements\<close>



section \<open>Concrete inputs\<close>

definition demo_objectId :: "json \<Rightarrow> nat option" where
  "demo_objectId v =
     (if v = JStr ''10'' then Some 10 else if v = JStr ''11'' then Some 11
      else if v = JStr ''12'' then Some 12 else if v = JStr ''1'' then Some 1
      else if v = JStr ''2'' then Some 2 else None)"

text \<open>
  A stand-in for the third-party primitives, used to run the model on examples: the
  verifier accepts the token \<open>''good''\<close> as issued at second 1000 to user 1 and rejects
  every other token.
\<close>

definition demo_verify :: "string \<Rightarrow> string \<Rightarrow> error + payload" where
  "demo_verify tok secret =
     (if tok = ''good'' then Inr \<lparr> payload_id = 1, iat = 1000 \<rparr> else Inl JsonWebTokenError)"

definition demo_lib :: "lib" where
  "demo_lib =
     \<lparr> bcrypt_hash = (\<lambda>pw cost. ''$2a$'' @ pw),
       sha256_hex = (\<lambda>s. ''#'' @ s),
       jwt_sign = (\<lambda>uid secret. ''good''),
       jwt_verify = demo_verify,
       isEmail = (\<lambda>s. CHR ''@'' \<in> set s),
       toLowerCase = (\<lambda>s. s),
       slugify = (\<lambda>s. s),
       convString = (\<lambda>v. None),
       convNumber = (\<lambda>v. None),
       convBoolean = (\<lambda>v. None),
       convDate = (\<lambda>v. None),
       convObjectId = demo_objectId,
       toNumber = (\<lambda>s. if s = ''400'' then Some 400 else None) \<rparr>"

definition alice :: user where
  "alice =
     \<lparr> user_id = 1, name = ''Alice'', email = ''alice@example.com'', photo = ''default.jpg'',
       role = ''user'', password = Some ''pass1234'', passwordConfirm = Some ''pass1234'',
       passwordChangedAt = None, passwordResetToken = None, passwordResetExpires = None,
       active = Some True \<rparr>"

definition req0 :: request where
  "req0 =
     \<lparr> authorization = None, cookie_jwt = None, req_user = None, params = [], body = [],
       req_file = None, res_locals_user = None \<rparr>"

definition req_bearer :: "string \<Rightarrow> request" where
  "req_bearer tok = req0\<lparr>authorization := Some (''Bearer '' @ tok)\<rparr>"

definition carol :: user where
  "carol =
     \<lparr> user_id = 3, name = ''Carol'', email = ''carol@example.com'', photo = ''default.jpg'',
       role = ''user'', password = Some ''$2a$oldpassword'', passwordConfirm = None,
       passwordChangedAt = None, passwordResetToken = Some ''#abcd'',
       passwordResetExpires = Some 5000, active = Some True \<rparr>"

definition new_password_body :: obj where
  "new_password_body = [(''password'', JStr ''newpass99''), (''passwordConfirm'', JStr ''newpass99'')]"

definition bob :: user where
  "bob =
     \<lparr> user_id = 2, name = ''Bob'', email = ''bob@example.com'', photo = ''default.jpg'',
       role = ''guide'', password = Some ''$2a$bobspassword'', passwordConfirm = None,
       passwordChangedAt = None, passwordResetToken = None, passwordResetExpires = None,
       active = Some True \<rparr>"

definition req_as :: "user \<Rightarrow> obj \<Rightarrow> request" where
  "req_as u b = req0\<lparr>req_user := Some (deselect u), body := b\<rparr>"

definition forest_hiker :: tour where
  "forest_hiker =
     \<lparr> tour_id = 10, tour_name = ''The Forest Hiker'', slug = ''the-forest-hiker'', duration = 5,
       maxGroupSize = 25, difficulty = ''easy'', ratingsAverage = 9 / 2, ratingsQuantity = 0,
       price = 397, priceDiscount = None, summary = ''Breathtaking hike'',
       imageCover = ''tour-1-cover.jpg'', secretTour = Some False \<rparr>"

definition hidden_valley :: tour where
  "hidden_valley =
     forest_hiker\<lparr>tour_id := 11, tour_name := ''The Hidden Valley'', slug := ''the-hidden-valley'',
                  secretTour := Some True\<rparr>"




text \<open>
  A database that rejects a \<^verbatim>\<open>$centerSphere\<close> whose centre lacks a coordinate or whose radius
  is NaN, and otherwise finds every start location inside.
\<close>

definition demo_centerSphere ::
  "string option \<Rightarrow> string option \<Rightarrow> rat option \<Rightarrow> error + (tour \<Rightarrow> bool)" where
  "demo_centerSphere lng lat r =
     (if truthy_str lng \<and> truthy_str lat \<and> r \<noteq> None then Inr (\<lambda>t. True) else Inl DriverError)"



section \<open>Properties\<close>

subsection \<open>Password hashing on save\<close>



subsection \<open>Role restriction\<close>

text \<open>
  C5. For every list of roles and every request carrying an authenticated user, the
  middleware of restrictTo passes the 403 error to next exactly when the user's role
  is not among the roles, and otherwise calls next with the request unchanged.
\<close>

theorem restrictTo_403_iff:
  "req_user req = Some u \<Longrightarrow>
     (restrictTo roles req =
        Inl (AppError ''You do not have permission to perform this action'' 403)
      \<longleftrightarrow> role u \<notin> set roles)
     \<and> (role u \<in> set roles \<longrightarrow> restrictTo roles req = Inr req)
     \<and> (\<forall>e. restrictTo roles req = Inl e \<longrightarrow>
            e = AppError ''You do not have permission to perform this action'' 403)"
  by (simp add: restrictTo_def)

theorem restrictTo_403_iff_witness:
  "req_user (req0\<lparr>req_user := Some alice\<rparr>) = Some alice
   \<and> restrictTo [''admin'', ''lead-guide''] (req0\<lparr>req_user := Some alice\<rparr>) =
       Inl (AppError ''You do not have permission to perform this action'' 403)
   \<and> restrictTo [''user''] (req0\<lparr>req_user := Some alice\<rparr>) = Inr (req0\<lparr>req_user := Some alice\<rparr>)"
proof -
  have h: "req_user (req0\<lparr>req_user := Some alice\<rparr>) = Some alice"
    by simp
  have r1: "role alice \<notin> set [''admin'', ''lead-guide'']"
    by (simp add: alice_def)
  have r2: "role alice \<in> set [''user'']"
    by (simp add: alice_def)
  from restrictTo_403_iff [OF h, of "[''admin'', ''lead-guide'']"] r1
  have a: "restrictTo [''admin'', ''lead-guide''] (req0\<lparr>req_user := Some alice\<rparr>) =
       Inl (AppError ''You do not have permission to perform this action'' 403)"
    by blast
  from restrictTo_403_iff [OF h, of "[''user'']"] r2
  have b: "restrictTo [''user''] (req0\<lparr>req_user := Some alice\<rparr>) = Inr (req0\<lparr>req_user := Some alice\<rparr>)"
    by blast
  from h a b show ?thesis by blast
qed

subsection \<open>The protect middleware\<close>

lemma find_SomeD: "List.find P xs = Some x \<Longrightarrow> x \<in> set xs \<and> P x"
  by (induction xs) (auto split: if_splits)

lemma User_findById_SomeD:
  "User_findById i users = Some u \<Longrightarrow>
     \<exists>d \<in> set users. user_id d = i \<and> active d \<noteq> Some False \<and> u = deselect d"
  unfolding User_findById_def User_findOne_def User_find_hook_def
  by (auto dest: find_SomeD)

lemma changedPasswordAfter_iff:
  "changedPasswordAfter u ts \<longleftrightarrow> (\<exists>t. passwordChangedAt u = Some t \<and> ts * 1000 < t)"
proof (cases "passwordChangedAt u")
  case None
  then show ?thesis by (simp add: changedPasswordAfter_def)
next
  case (Some t)
  have "((of_int ts :: rat) < of_int t / 1000) = ((of_int (ts * 1000) :: rat) < of_int t)"
    by (simp add: pos_less_divide_eq)
  also have "\<dots> = (ts * 1000 < t)"
    by (simp only: of_int_less_iff)
  finally show ?thesis using Some by (simp add: changedPasswordAfter_def)
qed

lemma deselect_changedAt [simp]: "passwordChangedAt (deselect d) = passwordChangedAt d"
  by (simp add: deselect_def)

text \<open>
  C2 (amended). protect grants access, setting req.user to the user found, only if a
  non-empty token is present, the token verifies against the secret, a user with the
  decoded id that is not deactivated is stored, and that user's password was not changed
  after the token was issued. A missing token, a missing user and a stale token each
  pass the 401 error with the stated message to next. A token that fails verification
  makes protect forward the verifier's own error to next, also without access; the
  global error handler answers a JsonWebTokenError or TokenExpiredError with 401 in
  production and with 500 in development.
\<close>

theorem protect_cases:
  "(protect L secret users req = Inr req' \<longrightarrow>
      (\<exists>tok decoded u. get_token req = Some tok \<and> tok \<noteq> []
         \<and> jwt_verify L tok secret = Inr decoded
         \<and> User_findById (payload_id decoded) users = Some u
         \<and> (\<exists>d \<in> set users. user_id d = payload_id decoded \<and> active d \<noteq> Some False
                \<and> u = deselect d
                \<and> (\<forall>t. passwordChangedAt d = Some t \<longrightarrow> t \<le> iat decoded * 1000))
         \<and> req' = req\<lparr>req_user := Some u, res_locals_user := Some u\<rparr>))
   \<and> (\<not> truthy_str (get_token req) \<longrightarrow>
        protect L secret users req =
          Inl (AppError ''You are not logged in. Please log in to get access.'' 401))
   \<and> (truthy_str (get_token req) \<longrightarrow>
        (\<forall>e. jwt_verify L (the (get_token req)) secret = Inl e \<longrightarrow>
               protect L secret users req = Inl e)
        \<and> (\<forall>decoded. jwt_verify L (the (get_token req)) secret = Inr decoded \<longrightarrow>
              (User_findById (payload_id decoded) users = None \<longrightarrow>
                 protect L secret users req = Inl (AppError ''The user no longer exists.'' 401))
              \<and> (\<forall>u. User_findById (payload_id decoded) users = Some u
                       \<and> changedPasswordAfter u (iat decoded) \<longrightarrow>
                     protect L secret users req =
                       Inl (AppError ''User recently changed password. Please log in again.'' 401))))
   \<and> globalErrorHandler Production api JsonWebTokenError = Some 401
   \<and> globalErrorHandler Production api TokenExpiredError = Some 401
   \<and> globalErrorHandler Development api JsonWebTokenError = Some 500
   \<and> globalErrorHandler Development api TokenExpiredError = Some 500
   \<and> (\<forall>a. authorization req = Some a \<and> a \<noteq> [] \<and> startsWith a ''Bearer'' \<longrightarrow>
          get_token req = nth_opt (split_on CHR '' '' a) 1)
   \<and> (\<not> (\<exists>a. authorization req = Some a \<and> a \<noteq> [] \<and> startsWith a ''Bearer'') \<longrightarrow>
          get_token req = (if truthy_str (cookie_jwt req) then cookie_jwt req else None))"
proof -
  have src: "(\<forall>a. authorization req = Some a \<and> a \<noteq> [] \<and> startsWith a ''Bearer'' \<longrightarrow>
          get_token req = nth_opt (split_on CHR '' '' a) 1)
   \<and> (\<not> (\<exists>a. authorization req = Some a \<and> a \<noteq> [] \<and> startsWith a ''Bearer'') \<longrightarrow>
          get_token req = (if truthy_str (cookie_jwt req) then cookie_jwt req else None))"
    by (cases "authorization req") (auto simp: get_token_def)
  have grant: "protect L secret users req = Inr req' \<longrightarrow>
      (\<exists>tok decoded u. get_token req = Some tok \<and> tok \<noteq> []
         \<and> jwt_verify L tok secret = Inr decoded
         \<and> User_findById (payload_id decoded) users = Some u
         \<and> (\<exists>d \<in> set users. user_id d = payload_id decoded \<and> active d \<noteq> Some False
                \<and> u = deselect d
                \<and> (\<forall>t. passwordChangedAt d = Some t \<longrightarrow> t \<le> iat decoded * 1000))
         \<and> req' = req\<lparr>req_user := Some u, res_locals_user := Some u\<rparr>)"
  proof
    assume ok: "protect L secret users req = Inr req'"
    then obtain tok where tok: "get_token req = Some tok" "tok \<noteq> []"
      by (cases "get_token req") (auto simp: protect_def Let_def split: if_splits)
    from ok tok obtain decoded where dec: "jwt_verify L tok secret = Inr decoded"
      by (cases "jwt_verify L tok secret") (auto simp: protect_def Let_def)
    from ok tok dec obtain u where u: "User_findById (payload_id decoded) users = Some u"
      by (cases "User_findById (payload_id decoded) users") (auto simp: protect_def Let_def)
    from ok tok dec u have fresh: "\<not> changedPasswordAfter u (iat decoded)"
      and req': "req' = req\<lparr>req_user := Some u, res_locals_user := Some u\<rparr>"
      by (auto simp: protect_def Let_def split: if_splits)
    from User_findById_SomeD [OF u] obtain d where d: "d \<in> set users"
      "user_id d = payload_id decoded" "active d \<noteq> Some False" "u = deselect d"
      by blast
    from fresh d(4) have "\<forall>t. passwordChangedAt d = Some t \<longrightarrow> t \<le> iat decoded * 1000"
      by (auto simp: changedPasswordAfter_iff)
    with tok dec u d req' show "\<exists>tok decoded u. get_token req = Some tok \<and> tok \<noteq> []
         \<and> jwt_verify L tok secret = Inr decoded
         \<and> User_findById (payload_id decoded) users = Some u
         \<and> (\<exists>d \<in> set users. user_id d = payload_id decoded \<and> active d \<noteq> Some False
                \<and> u = deselect d
                \<and> (\<forall>t. passwordChangedAt d = Some t \<longrightarrow> t \<le> iat decoded * 1000))
         \<and> req' = req\<lparr>req_user := Some u, res_locals_user := Some u\<rparr>"
      by blast
  qed
  have missing: "\<not> truthy_str (get_token req) \<longrightarrow>
        protect L secret users req =
          Inl (AppError ''You are not logged in. Please log in to get access.'' 401)"
    by (simp add: protect_def Let_def)
  have rest: "truthy_str (get_token req) \<longrightarrow>
        (\<forall>e. jwt_verify L (the (get_token req)) secret = Inl e \<longrightarrow>
               protect L secret users req = Inl e)
        \<and> (\<forall>decoded. jwt_verify L (the (get_token req)) secret = Inr decoded \<longrightarrow>
              (User_findById (payload_id decoded) users = None \<longrightarrow>
                 protect L secret users req = Inl (AppError ''The user no longer exists.'' 401))
              \<and> (\<forall>u. User_findById (payload_id decoded) users = Some u
                       \<and> changedPasswordAfter u (iat decoded) \<longrightarrow>
                     protect L secret users req =
                       Inl (AppError ''User recently changed password. Please log in again.'' 401)))"
    by (simp add: protect_def Let_def)
  have handler: "globalErrorHandler Production api JsonWebTokenError = Some 401
   \<and> globalErrorHandler Production api TokenExpiredError = Some 401
   \<and> globalErrorHandler Development api JsonWebTokenError = Some 500
   \<and> globalErrorHandler Development api TokenExpiredError = Some 500"
    by (simp add: globalErrorHandler_def replaced_status_def statusCode_def)
  from grant missing rest handler src show ?thesis by blast
qed


lemma get_token_good: "get_token (req_bearer ''good'') = Some ''good''"
  by code_simp

lemma get_token_forged: "get_token (req_bearer ''forged'') = Some ''forged''"
  by code_simp

lemma get_token_req0: "get_token req0 = None"
  by code_simp

lemma protect_good:
  "protect demo_lib ''secret'' [alice] (req_bearer ''good'') =
     Inr ((req_bearer ''good'')\<lparr>req_user := Some (deselect alice),
                                   res_locals_user := Some (deselect alice)\<rparr>)"
  by code_simp

theorem protect_cases_witness:
  "protect demo_lib ''secret'' [alice] (req_bearer ''good'') =
     Inr ((req_bearer ''good'')\<lparr>req_user := Some (deselect alice),
                                   res_locals_user := Some (deselect alice)\<rparr>)
   \<and> get_token (req_bearer ''good'') \<noteq> None
   \<and> protect demo_lib ''secret'' [alice] req0 =
       Inl (AppError ''You are not logged in. Please log in to get access.'' 401)
   \<and> protect demo_lib ''secret'' [alice] (req_bearer ''forged'') = Inl JsonWebTokenError"
proof -
  note T = protect_cases [where L = demo_lib and secret = "''secret''" and users = "[alice]"
                             and api = True]
  from T [where req = "req_bearer ''good''"
            and req' = "(req_bearer ''good'')\<lparr>req_user := Some (deselect alice),
                                   res_locals_user := Some (deselect alice)\<rparr>"] protect_good
  have "\<exists>tok. get_token (req_bearer ''good'') = Some tok"
    by blast
  then have a: "get_token (req_bearer ''good'') \<noteq> None"
    by auto
  have "\<not> truthy_str (get_token req0)"
    by (simp add: get_token_req0)
  with T [where req = req0 and req' = req0]
  have b: "protect demo_lib ''secret'' [alice] req0 =
       Inl (AppError ''You are not logged in. Please log in to get access.'' 401)"
    by blast
  have t: "truthy_str (get_token (req_bearer ''forged''))"
    by (simp add: get_token_forged)
  have v: "jwt_verify demo_lib (the (get_token (req_bearer ''forged''))) ''secret'' = Inl JsonWebTokenError"
    by (simp add: get_token_forged demo_lib_def demo_verify_def)
  from T [where req = "req_bearer ''forged''" and req' = req0] t v
  have c: "protect demo_lib ''secret'' [alice] (req_bearer ''forged'') = Inl JsonWebTokenError"
    by blast
  from protect_good a b c show ?thesis by blast
qed

text \<open>
  The claim as stated fails: in development a request with a forged token is answered
  with status 500, not 401.
\<close>

theorem protect_invalid_token_counterexample:
  "protect demo_lib ''secret'' [alice] (req_bearer ''forged'') = Inl JsonWebTokenError
   \<and> globalErrorHandler Development True JsonWebTokenError = Some 500"
  by code_simp

subsection \<open>The password reset token\<close>

lemma reset_cond:
  "(passwordResetToken u = Some h \<and> (case passwordResetExpires u of None \<Rightarrow> False | Some t \<Rightarrow> now < t))
   = (passwordResetToken u = Some h \<and> (\<exists>t. passwordResetExpires u = Some t \<and> now < t))"
  by (cases "passwordResetExpires u") auto

lemma User_save_Inl:
  "User_save L now u users = Inl e \<Longrightarrow> e = ValidationError (validate_passwords u) \<or> e = IllegalArguments"
  by (auto simp: User_save_def pre_save_def pre_save_hash_def split: if_splits option.splits sum.splits)

lemma validate_passwords_ok:
  "validate_passwords u = [] \<longleftrightarrow>
     (\<exists>pw. password u = Some pw \<and> 8 \<le> length pw \<and> passwordConfirm u = Some pw)"
  by (cases "password u"; cases "passwordConfirm u") (auto simp: validate_passwords_def)

lemma User_save_ok:
  "password u = Some pw \<Longrightarrow> 8 \<le> length pw \<Longrightarrow> passwordConfirm u = Some pw \<Longrightarrow>
   User_save L now u users =
     Inr (update_first (\<lambda>d. user_id d = user_id u)
            (\<lambda>d. d\<lparr>password := Some (bcrypt_hash L pw 12), passwordConfirm := None,
                   passwordChangedAt := Some (now - 1000),
                   passwordResetToken := passwordResetToken u,
                   passwordResetExpires := passwordResetExpires u\<rparr>) users,
          u\<lparr>password := Some (bcrypt_hash L pw 12), passwordConfirm := None,
            passwordChangedAt := Some (now - 1000)\<rparr>)"
proof -
  assume a: "password u = Some pw" "8 \<le> length pw" "passwordConfirm u = Some pw"
  then have v: "validate_passwords u = []"
    by (auto simp: validate_passwords_ok)
  from a have p: "pre_save L True False now u =
      Inr (u\<lparr>password := Some (bcrypt_hash L pw 12), passwordConfirm := None,
            passwordChangedAt := Some (now - 1000)\<rparr>)"
    by (simp add: pre_save_def pre_save_hash_def pre_save_changedAt_def)
  show ?thesis
    unfolding User_save_def by (simp add: v p)
qed

text \<open>
  C4 (amended). createPasswordResetToken returns the hexadecimal form of the random bytes
  (two characters per byte), stores its SHA-256 hex digest in passwordResetToken and sets
  passwordResetExpires to 10 minutes after now. resetPassword fails with the 400 error
  'Token is invalid or has expired' if and only if no user that is not deactivated has a
  passwordResetToken equal to the digest of the presented token and a passwordResetExpires
  strictly later than now. When such a user is found and the new password has at least 8
  characters and equals its confirmation, the stored password becomes the bcrypt hash of
  the new one, both reset fields are cleared, and the response is 200 with a token signed
  for that user.
\<close>

theorem resetPassword_token_lifecycle:
  "(fst (createPasswordResetToken L rnd now u) = toString_hex rnd
    \<and> passwordResetToken (snd (createPasswordResetToken L rnd now u))
        = Some (sha256_hex L (toString_hex rnd))
    \<and> passwordResetExpires (snd (createPasswordResetToken L rnd now u)) = Some (now + 600000)
    \<and> length (toString_hex rnd) = 2 * length rnd)
   \<and> ((resetPassword L secret now tok b users = Inl (AppError ''Token is invalid or has expired'' 400))
        \<longleftrightarrow> \<not> (\<exists>d \<in> set users. active d \<noteq> Some False
                 \<and> passwordResetToken d = Some (sha256_hex L tok)
                 \<and> (\<exists>t. passwordResetExpires d = Some t \<and> now < t)))
   \<and> (\<forall>found pw.
         User_findOne (\<lambda>d. passwordResetToken d = Some (sha256_hex L tok)
                           \<and> (\<exists>t. passwordResetExpires d = Some t \<and> now < t)) users = Some found
         \<and> body_string L b ''password'' = Some pw \<and> 8 \<le> length pw
         \<and> body_string L b ''passwordConfirm'' = Some pw
         \<longrightarrow> resetPassword L secret now tok b users =
               Inr (update_first (\<lambda>d. user_id d = user_id found)
                      (\<lambda>d. d\<lparr>password := Some (bcrypt_hash L pw 12), passwordConfirm := None,
                             passwordChangedAt := Some (now - 1000),
                             passwordResetToken := None, passwordResetExpires := None\<rparr>) users,
                    \<lparr> res_status = 200, res_token = Some (jwt_sign L (user_id found) secret),
                      res_data = UserData (found\<lparr>password := None, passwordConfirm := None,
                                    passwordChangedAt := Some (now - 1000),
                                    passwordResetToken := None, passwordResetExpires := None\<rparr>) \<rparr>))"
proof -
  let ?cond = "\<lambda>d. passwordResetToken d = Some (sha256_hex L tok)
                  \<and> (case passwordResetExpires d of None \<Rightarrow> False | Some t \<Rightarrow> now < t)"
  let ?cond' = "\<lambda>d. passwordResetToken d = Some (sha256_hex L tok)
                  \<and> (\<exists>t. passwordResetExpires d = Some t \<and> now < t)"
  have ceq: "?cond = ?cond'"
    by (rule ext) (rule reset_cond)
  have create: "fst (createPasswordResetToken L rnd now u) = toString_hex rnd
    \<and> passwordResetToken (snd (createPasswordResetToken L rnd now u))
        = Some (sha256_hex L (toString_hex rnd))
    \<and> passwordResetExpires (snd (createPasswordResetToken L rnd now u)) = Some (now + 600000)
    \<and> length (toString_hex rnd) = 2 * length rnd"
    by (simp add: createPasswordResetToken_def Let_def toString_hex_def length_concat o_def sum_list_triv)
  have rp: "resetPassword L secret now tok b users =
      (case User_findOne ?cond' users of
        None \<Rightarrow> Inl (AppError ''Token is invalid or has expired'' 400)
      | Some u \<Rightarrow>
          (case User_save L now
                  (u\<lparr>password := body_string L b ''password'',
                     passwordConfirm := body_string L b ''passwordConfirm'',
                     passwordResetToken := None, passwordResetExpires := None\<rparr>) users of
             Inl e \<Rightarrow> Inl e
           | Inr (users', saved) \<Rightarrow> Inr (users', createSendToken L secret saved 200)))"
    unfolding resetPassword_def Let_def ceq by (rule refl)
  have none_iff: "User_findOne ?cond' users = None \<longleftrightarrow>
      \<not> (\<exists>d \<in> set users. active d \<noteq> Some False
                 \<and> passwordResetToken d = Some (sha256_hex L tok)
                 \<and> (\<exists>t. passwordResetExpires d = Some t \<and> now < t))"
    unfolding User_findOne_def User_find_hook_def
    by (auto simp: find_None_iff)
  have iff: "(resetPassword L secret now tok b users = Inl (AppError ''Token is invalid or has expired'' 400))
        \<longleftrightarrow> User_findOne ?cond' users = None"
  proof (cases "User_findOne ?cond' users")
    case None
    then show ?thesis by (simp add: rp)
  next
    case (Some f)
    let ?u = "f\<lparr>password := body_string L b ''password'',
                     passwordConfirm := body_string L b ''passwordConfirm'',
                     passwordResetToken := None, passwordResetExpires := None\<rparr>"
    have "resetPassword L secret now tok b users \<noteq> Inl (AppError ''Token is invalid or has expired'' 400)"
    proof (cases "User_save L now ?u users")
      case (Inl e)
      from User_save_Inl [OF Inl] have "e \<noteq> AppError ''Token is invalid or has expired'' 400"
        by auto
      with Inl Some show ?thesis by (simp add: rp)
    next
      case (Inr r)
      with Some show ?thesis by (simp add: rp split: prod.splits)
    qed
    with Some show ?thesis by simp
  qed
  have success: "\<forall>found pw.
         User_findOne ?cond' users = Some found
         \<and> body_string L b ''password'' = Some pw \<and> 8 \<le> length pw
         \<and> body_string L b ''passwordConfirm'' = Some pw
         \<longrightarrow> resetPassword L secret now tok b users =
               Inr (update_first (\<lambda>d. user_id d = user_id found)
                      (\<lambda>d. d\<lparr>password := Some (bcrypt_hash L pw 12), passwordConfirm := None,
                             passwordChangedAt := Some (now - 1000),
                             passwordResetToken := None, passwordResetExpires := None\<rparr>) users,
                    \<lparr> res_status = 200, res_token = Some (jwt_sign L (user_id found) secret),
                      res_data = UserData (found\<lparr>password := None, passwordConfirm := None,
                                    passwordChangedAt := Some (now - 1000),
                                    passwordResetToken := None, passwordResetExpires := None\<rparr>) \<rparr>)"
  proof (intro allI impI)
    fix found pw
    assume a: "User_findOne ?cond' users = Some found
         \<and> body_string L b ''password'' = Some pw \<and> 8 \<le> length pw
         \<and> body_string L b ''passwordConfirm'' = Some pw"
    let ?u = "found\<lparr>password := Some pw, passwordConfirm := Some pw,
                     passwordResetToken := None, passwordResetExpires := None\<rparr>"
    have s: "User_save L now ?u users =
       Inr (update_first (\<lambda>d. user_id d = user_id ?u)
            (\<lambda>d. d\<lparr>password := Some (bcrypt_hash L pw 12), passwordConfirm := None,
                   passwordChangedAt := Some (now - 1000),
                   passwordResetToken := passwordResetToken ?u,
                   passwordResetExpires := passwordResetExpires ?u\<rparr>) users,
          ?u\<lparr>password := Some (bcrypt_hash L pw 12), passwordConfirm := None,
            passwordChangedAt := Some (now - 1000)\<rparr>)"
      using a by (intro User_save_ok) simp_all
    from a show "resetPassword L secret now tok b users =
               Inr (update_first (\<lambda>d. user_id d = user_id found)
                      (\<lambda>d. d\<lparr>password := Some (bcrypt_hash L pw 12), passwordConfirm := None,
                             passwordChangedAt := Some (now - 1000),
                             passwordResetToken := None, passwordResetExpires := None\<rparr>) users,
                    \<lparr> res_status = 200, res_token = Some (jwt_sign L (user_id found) secret),
                      res_data = UserData (found\<lparr>password := None, passwordConfirm := None,
                                    passwordChangedAt := Some (now - 1000),
                                    passwordResetToken := None, passwordResetExpires := None\<rparr>) \<rparr>)"
      by (simp add: rp s createSendToken_def signToken_def Let_def)
  qed
  have iff2: "(resetPassword L secret now tok b users = Inl (AppError ''Token is invalid or has expired'' 400))
        \<longleftrightarrow> \<not> (\<exists>d \<in> set users. active d \<noteq> Some False
                 \<and> passwordResetToken d = Some (sha256_hex L tok)
                 \<and> (\<exists>t. passwordResetExpires d = Some t \<and> now < t))"
    by (simp only: iff none_iff)
  show ?thesis
    by (rule conjI [OF create conjI [OF iff2 success]])
qed


lemma carol_found:
  "User_findOne (\<lambda>d. passwordResetToken d = Some (sha256_hex demo_lib ''abcd'')
                           \<and> (\<exists>t. passwordResetExpires d = Some t \<and> 1000 < t)) [alice, carol]
     = Some (deselect carol)"
  by (simp add: User_findOne_def User_find_hook_def demo_lib_def alice_def carol_def)

lemma new_password_body_strings:
  "body_string demo_lib new_password_body ''password'' = Some ''newpass99''"
  "body_string demo_lib new_password_body ''passwordConfirm'' = Some ''newpass99''"
  by (simp_all add: body_string_def new_password_body_def cast_string_def)

theorem resetPassword_token_lifecycle_witness:
  "resetPassword demo_lib ''secret'' 1000 ''abcd'' new_password_body [alice, carol] =
     Inr (update_first (\<lambda>d. user_id d = user_id (deselect carol))
            (\<lambda>d. d\<lparr>password := Some (bcrypt_hash demo_lib ''newpass99'' 12), passwordConfirm := None,
                   passwordChangedAt := Some (1000 - 1000),
                   passwordResetToken := None, passwordResetExpires := None\<rparr>) [alice, carol],
          \<lparr> res_status = 200, res_token = Some (jwt_sign demo_lib (user_id (deselect carol)) ''secret''),
            res_data = UserData ((deselect carol)\<lparr>password := None, passwordConfirm := None,
                          passwordChangedAt := Some (1000 - 1000),
                          passwordResetToken := None, passwordResetExpires := None\<rparr>) \<rparr>)
   \<and> resetPassword demo_lib ''secret'' 1000 ''wrong'' new_password_body [alice, carol] =
       Inl (AppError ''Token is invalid or has expired'' 400)"
proof -
  note T = resetPassword_token_lifecycle [where L = demo_lib and secret = "''secret''"
      and now = 1000 and b = new_password_body and users = "[alice, carol]"
      and rnd = "[]" and u = alice]
  have l: "8 \<le> length ''newpass99''"
    by simp
  from T [where tok = "''abcd''"] carol_found new_password_body_strings l
  have a: "resetPassword demo_lib ''secret'' 1000 ''abcd'' new_password_body [alice, carol] =
     Inr (update_first (\<lambda>d. user_id d = user_id (deselect carol))
            (\<lambda>d. d\<lparr>password := Some (bcrypt_hash demo_lib ''newpass99'' 12), passwordConfirm := None,
                   passwordChangedAt := Some (1000 - 1000),
                   passwordResetToken := None, passwordResetExpires := None\<rparr>) [alice, carol],
          \<lparr> res_status = 200, res_token = Some (jwt_sign demo_lib (user_id (deselect carol)) ''secret''),
            res_data = UserData ((deselect carol)\<lparr>password := None, passwordConfirm := None,
                          passwordChangedAt := Some (1000 - 1000),
                          passwordResetToken := None, passwordResetExpires := None\<rparr>) \<rparr>)"
    by blast
  have n: "\<not> (\<exists>d \<in> set [alice, carol]. active d \<noteq> Some False
                 \<and> passwordResetToken d = Some (sha256_hex demo_lib ''wrong'')
                 \<and> (\<exists>t. passwordResetExpires d = Some t \<and> 1000 < t))"
    by (simp add: alice_def carol_def demo_lib_def)
  from T [where tok = "''wrong''"] n
  have b: "resetPassword demo_lib ''secret'' 1000 ''wrong'' new_password_body [alice, carol] =
       Inl (AppError ''Token is invalid or has expired'' 400)"
    by blast
  from a b show ?thesis by blast
qed

text \<open>
  The claim as stated fails: a deactivated user whose stored digest matches the presented
  token and whose token has not expired is not accepted.
\<close>

theorem resetPassword_deactivated_counterexample:
  "passwordResetToken (carol\<lparr>active := Some False\<rparr>) = Some (sha256_hex demo_lib ''abcd'')
   \<and> passwordResetExpires (carol\<lparr>active := Some False\<rparr>) = Some 5000
   \<and> (1000 :: int) < 5000
   \<and> resetPassword demo_lib ''secret'' 1000 ''abcd'' new_password_body
        [alice, carol\<lparr>active := Some False\<rparr>] =
       Inl (AppError ''Token is invalid or has expired'' 400)"
  by (simp add: resetPassword_def User_findOne_def User_find_hook_def Let_def
        alice_def carol_def demo_lib_def)

subsection \<open>Deactivating the current user\<close>

lemma deactivate_first:
  "distinct (map user_id xs) \<Longrightarrow>
   update_first (\<lambda>u. user_id u = i \<and> User_find_hook u) (\<lambda>u. u\<lparr>active := Some False\<rparr>) xs
     = map (\<lambda>d. if user_id d = i then d\<lparr>active := Some False\<rparr> else d) xs"
proof (induction xs)
  case Nil
  then show ?case by simp
next
  case (Cons x xs)
  show ?case
  proof (cases "user_id x = i")
    case True
    from Cons.prems have "user_id x \<notin> user_id ` set xs"
      by simp
    with True have "\<forall>d \<in> set xs. user_id d \<noteq> i"
      by blast
    then have same: "map (\<lambda>d. if user_id d = i then d\<lparr>active := Some False\<rparr> else d) xs = xs"
      by (induction xs) auto
    show ?thesis
    proof (cases "User_find_hook x")
      case True
      with \<open>user_id x = i\<close> same show ?thesis by simp
    next
      case False
      then have "x\<lparr>active := Some False\<rparr> = x"
        by (simp add: User_find_hook_def)
      with False \<open>user_id x = i\<close> Cons show ?thesis by simp
    qed
  next
    case False
    with Cons show ?thesis by simp
  qed
qed

lemma deleteMe_result:
  "req_user req = Some me \<Longrightarrow>
   deleteMe L users req =
     Inr (update_first (\<lambda>u. user_id u = user_id me \<and> User_find_hook u)
            (\<lambda>u. u\<lparr>active := Some False\<rparr>) users,
          \<lparr> res_status = 204, res_token = None, res_data = NoData \<rparr>)"
proof -
  assume r: "req_user req = Some me"
  have c: "cast_user_update L [(''active'', JBool False)] = Inr (\<lambda>u. u\<lparr>active := Some False\<rparr>, [])"
    by (simp add: cast_user_path_def cast_boolean_def)
  show ?thesis
  proof (cases "List.find (\<lambda>u. user_id u = user_id me \<and> User_find_hook u) users")
    case None
    then have "update_first (\<lambda>u. user_id u = user_id me \<and> User_find_hook u)
            (\<lambda>u. u\<lparr>active := Some False\<rparr>) users = users"
      by (induction users) (auto split: if_splits)
    with None r c show ?thesis
      by (simp add: deleteMe_def User_findByIdAndUpdate_def)
  next
    case (Some a)
    with r c show ?thesis
      by (simp add: deleteMe_def User_findByIdAndUpdate_def)
  qed
qed

lemma user_id_deselect: "user_id (deselect d) = user_id d"
  by (simp add: deselect_def)

text \<open>
  C9. deleteMe removes no document: with distinct ids, the collection afterwards is the
  old one with the active path of the current user's document set to false, and the
  response is 204 with data null. Because every find-family query passes through the
  hook that adds active not-equal-to false, the deactivated user is returned by no
  findById, findOne or find afterwards, while the document is still stored.
\<close>

theorem deleteMe_deactivates:
  assumes "req_user req = Some me" and "distinct (map user_id users)"
  shows "\<exists>users'. deleteMe L users req =
             Inr (users', \<lparr> res_status = 204, res_token = None, res_data = NoData \<rparr>)
           \<and> users' = map (\<lambda>d. if user_id d = user_id me then d\<lparr>active := Some False\<rparr> else d) users
           \<and> map user_id users' = map user_id users
           \<and> (\<forall>d \<in> set users'. user_id d = user_id me \<longrightarrow> active d = Some False)
           \<and> User_findById (user_id me) users' = None
           \<and> (\<forall>cond u. User_findOne cond users' = Some u \<longrightarrow> user_id u \<noteq> user_id me)
           \<and> (\<forall>cond. user_id me \<notin> user_id ` set (User_find cond users'))"
proof -
  define users' where
    "users' = map (\<lambda>d. if user_id d = user_id me then d\<lparr>active := Some False\<rparr> else d) users"
  have res: "deleteMe L users req =
             Inr (users', \<lparr> res_status = 204, res_token = None, res_data = NoData \<rparr>)"
    using deleteMe_result [OF assms(1)] deactivate_first [OF assms(2)] users'_def by simp
  have ids: "map user_id users' = map user_id users"
    unfolding users'_def by (induction users) auto
  have off: "\<forall>d \<in> set users'. user_id d = user_id me \<longrightarrow> active d = Some False"
    unfolding users'_def by auto
  then have hidden: "\<forall>d \<in> set users'. User_find_hook d \<longrightarrow> user_id d \<noteq> user_id me"
    unfolding User_find_hook_def by blast
  have one: "\<forall>cond u. User_findOne cond users' = Some u \<longrightarrow> user_id u \<noteq> user_id me"
  proof (intro allI impI)
    fix cond u
    assume "User_findOne cond users' = Some u"
    then obtain d where d: "List.find (\<lambda>u. cond u \<and> User_find_hook u) users' = Some d"
      and u: "u = deselect d"
      unfolding User_findOne_def by blast
    from find_SomeD [OF d] hidden have "user_id d \<noteq> user_id me"
      by blast
    with u show "user_id u \<noteq> user_id me"
      by (simp add: user_id_deselect)
  qed
  have byid: "User_findById (user_id me) users' = None"
  proof (cases "User_findById (user_id me) users'")
    case None
    then show ?thesis .
  next
    case (Some u)
    then obtain d where d: "List.find (\<lambda>u. user_id u = user_id me \<and> User_find_hook u) users' = Some d"
      unfolding User_findById_def User_findOne_def by blast
    from find_SomeD [OF d] hidden have False
      by blast
    then show ?thesis ..
  qed
  have many: "\<forall>cond. user_id me \<notin> user_id ` set (User_find cond users')"
  proof
    fix cond
    show "user_id me \<notin> user_id ` set (User_find cond users')"
    proof
      assume "user_id me \<in> user_id ` set (User_find cond users')"
      then obtain d where "d \<in> set users'" "User_find_hook d" "user_id (deselect d) = user_id me"
        unfolding User_find_def by auto
      with hidden show False
        unfolding user_id_deselect by blast
    qed
  qed
  from res users'_def ids off byid one many show ?thesis by blast
qed

lemma alice_bob_distinct: "distinct (map user_id [alice, bob])"
  by (simp add: alice_def bob_def)

lemma req_as_user: "req_user (req_as bob []) = Some (deselect bob)"
  by (simp add: req_as_def req0_def)

theorem deleteMe_deactivates_witness:
  "deleteMe demo_lib [alice, bob] (req_as bob []) =
     Inr ([alice, bob\<lparr>active := Some False\<rparr>],
          \<lparr> res_status = 204, res_token = None, res_data = NoData \<rparr>)
   \<and> User_findById (user_id bob) [alice, bob\<lparr>active := Some False\<rparr>] = None"
proof -
  have m: "map (\<lambda>d. if user_id d = user_id (deselect bob) then d\<lparr>active := Some False\<rparr> else d)
             [alice, bob] = [alice, bob\<lparr>active := Some False\<rparr>]"
    by (simp add: alice_def bob_def deselect_def)
  have i: "user_id (deselect bob) = user_id bob"
    by (simp add: deselect_def)
  from deleteMe_deactivates [OF req_as_user alice_bob_distinct, of demo_lib]
  obtain users' where r: "deleteMe demo_lib [alice, bob] (req_as bob []) =
             Inr (users', \<lparr> res_status = 204, res_token = None, res_data = NoData \<rparr>)"
    and u: "users' = map (\<lambda>d. if user_id d = user_id (deselect bob) then d\<lparr>active := Some False\<rparr> else d)
             [alice, bob]"
    and f: "User_findById (user_id (deselect bob)) users' = None"
    by blast
  from u m have e: "users' = [alice, bob\<lparr>active := Some False\<rparr>]"
    by (rule trans)
  from r f show ?thesis
    unfolding e i by (rule conjI)
qed

subsection \<open>Updating the current user\<close>















subsection \<open>The tour handlers\<close>



lemma id_11: "cast_objectId demo_lib (JStr ''11'') = Some 11"
  by code_simp







subsection \<open>Rating aggregation\<close>




















subsection \<open>Tours within a radius\<close>

text \<open>
  C10 (amended). When latlng does not split on ',' into a non-empty latitude and a
  non-empty longitude, getToursWithin passes the 400 error to next and goes on to run the
  query: when the query resolves it then sends a 200 response with the tours found, and
  when the query rejects it passes the rejection to next; either way two responses are
  initiated. When both coordinates are present exactly one response is initiated, the 200
  response when the query resolves. The search radius is distance/3963.2 when unit is
  'mi' and distance/6378.1 otherwise.
\<close>

theorem getToursWithin_events:
  "(\<not> truthy_str (lat_of latlng) \<or> \<not> truthy_str (lng_of latlng) \<longrightarrow>
        (\<forall>inside. centerSphere (lng_of latlng) (lat_of latlng) (search_radius L distance unit) = Inr inside \<longrightarrow>
           getToursWithin L centerSphere distance latlng unit tours =
             [Next (AppError ''Please provide latitude and longitude in the format lat, lng.'' 400),
              Send \<lparr> res_status = 200, res_token = None,
                     res_data = Tours (length (Tour_find inside tours)) (Tour_find inside tours) \<rparr>])
        \<and> (\<forall>e. centerSphere (lng_of latlng) (lat_of latlng) (search_radius L distance unit) = Inl e \<longrightarrow>
           getToursWithin L centerSphere distance latlng unit tours =
             [Next (AppError ''Please provide latitude and longitude in the format lat, lng.'' 400),
              Next e])
        \<and> length (getToursWithin L centerSphere distance latlng unit tours) = 2)
   \<and> (truthy_str (lat_of latlng) \<and> truthy_str (lng_of latlng) \<longrightarrow>
        (\<forall>inside. centerSphere (lng_of latlng) (lat_of latlng) (search_radius L distance unit) = Inr inside \<longrightarrow>
           getToursWithin L centerSphere distance latlng unit tours =
             [Send \<lparr> res_status = 200, res_token = None,
                     res_data = Tours (length (Tour_find inside tours)) (Tour_find inside tours) \<rparr>])
        \<and> (\<forall>e. centerSphere (lng_of latlng) (lat_of latlng) (search_radius L distance unit) = Inl e \<longrightarrow>
           getToursWithin L centerSphere distance latlng unit tours = [Next e])
        \<and> length (getToursWithin L centerSphere distance latlng unit tours) = 1)
   \<and> search_radius L distance ''mi'' = map_option (\<lambda>d. d / (39632 / 10)) (toNumber L distance)
   \<and> (unit \<noteq> ''mi'' \<longrightarrow>
        search_radius L distance unit = map_option (\<lambda>d. d / (63781 / 10)) (toNumber L distance))"
  by (auto simp: getToursWithin_def search_radius_def Let_def split: sum.splits)

lemma lng_missing: "\<not> truthy_str (lng_of ''34.1'')"
  by code_simp

lemma both_present: "truthy_str (lat_of ''34.1,-118.1'') \<and> truthy_str (lng_of ''34.1,-118.1'')"
  by code_simp

lemma query_rejected:
  "demo_centerSphere (lng_of ''34.1'') (lat_of ''34.1'') (search_radius demo_lib ''400'' ''mi'')
     = Inl DriverError"
  using lng_missing by (simp add: demo_centerSphere_def)

theorem getToursWithin_events_witness:
  "getToursWithin demo_lib demo_centerSphere ''400'' ''34.1'' ''mi'' [forest_hiker, hidden_valley] =
     [Next (AppError ''Please provide latitude and longitude in the format lat, lng.'' 400),
      Next DriverError]
   \<and> length (getToursWithin demo_lib demo_centerSphere ''400'' ''34.1,-118.1'' ''mi''
               [forest_hiker, hidden_valley]) = 1"
proof -
  from getToursWithin_events [where L = demo_lib and centerSphere = demo_centerSphere
      and distance = "''400''" and latlng = "''34.1''" and unit = "''mi''"
      and tours = "[forest_hiker, hidden_valley]"] lng_missing query_rejected
  have a: "getToursWithin demo_lib demo_centerSphere ''400'' ''34.1'' ''mi'' [forest_hiker, hidden_valley] =
     [Next (AppError ''Please provide latitude and longitude in the format lat, lng.'' 400),
      Next DriverError]"
    by blast
  from getToursWithin_events [where L = demo_lib and centerSphere = demo_centerSphere
      and distance = "''400''" and latlng = "''34.1,-118.1''" and unit = "''mi''"
      and tours = "[forest_hiker, hidden_valley]"] both_present
  have b: "length (getToursWithin demo_lib demo_centerSphere ''400'' ''34.1,-118.1'' ''mi''
               [forest_hiker, hidden_valley]) = 1"
    by blast
  from a b show ?thesis by (rule conjI)
qed

text \<open>
  The claim as stated fails: with the longitude missing and a database that rejects such
  a centre, the second response is the forwarded rejection, and no 200 response is
  attempted.
\<close>

theorem getToursWithin_no_200_counterexample:
  "lng_of ''34.1'' = None
   \<and> getToursWithin demo_lib demo_centerSphere ''400'' ''34.1'' ''mi'' [forest_hiker, hidden_valley] =
     [Next (AppError ''Please provide latitude and longitude in the format lat, lng.'' 400),
      Next DriverError]
   \<and> getToursWithin demo_lib demo_centerSphere ''400'' ''34.1,-118.1'' ''mi''
        [forest_hiker, hidden_valley] =
     [Send \<lparr> res_status = 200, res_token = None, res_data = Tours 1 [forest_hiker] \<rparr>]"
  by code_simp

subsection \<open>Invariants declared in the schemas\<close>















end
